theory Spec2Isabelle
  imports Main "HOL-Library.AList"
begin

section \<open>Python values\<close>

text \<open>
  The program of \<^verbatim>\<open>exchangeBrowser.py\<close> is dynamically typed: every value it reads
  comes out of \<^verbatim>\<open>json.load\<close> / \<^verbatim>\<open>response.json()\<close> or is one of the literals
  \<^verbatim>\<open>None\<close>, \<^verbatim>\<open>0\<close>, \<^verbatim>\<open>""\<close>, \<^verbatim>\<open>[]\<close>, \<^verbatim>\<open>{}\<close>, \<^verbatim>\<open>False\<close>. The type \<open>pyval\<close> holds these
  values. A dictionary is an association list in insertion order (the keys of a JSON object
  are strings). Numbers are the integers; binary floating point is outside the model.
  Strings are lists of code points below 256.
\<close>

datatype pyval =
    PNone
  | PBool bool
  | PInt int
  | PStr string
  | PList "pyval list"
  | PDict "(string \<times> pyval) list"

datatype error =
  TypeError | KeyError | AttributeError | IndexError | JSONDecodeError | OSError

text \<open>
  A piece of display text: a literal, a pictograph of the source (named, since it is no
  code point below 256), or \<^verbatim>\<open>str(v)\<close> of a value, which is kept as it is.
\<close>

datatype pytext = Lit string | Pict string | Str pyval

text \<open>\<^verbatim>\<open>str(v)\<close>: a string is its own text.\<close>

fun py_str :: "pyval \<Rightarrow> pytext" where
  "py_str (PStr s) = Lit s"
| "py_str v = Str v"

text \<open>
  \<^verbatim>\<open>x == y\<close> on these values: \<^verbatim>\<open>True == 1\<close> and \<^verbatim>\<open>False == 0\<close> hold, lists are equal
  elementwise, dictionaries are equal when they have the same keys with equal values, in
  any order.
\<close>

function (sequential) py_eq :: "pyval \<Rightarrow> pyval \<Rightarrow> bool" where
  "py_eq PNone PNone = True"
| "py_eq (PBool a) (PBool b) = (a = b)"
| "py_eq (PBool a) (PInt n) = ((if a then 1 else 0) = n)"
| "py_eq (PInt m) (PBool b) = (m = (if b then 1 else 0))"
| "py_eq (PInt m) (PInt n) = (m = n)"
| "py_eq (PStr s) (PStr t) = (s = t)"
| "py_eq (PList xs) (PList ys) =
     (length xs = length ys \<and> (\<forall>(x, y) \<in> set (zip xs ys). py_eq x y))"
| "py_eq (PDict a) (PDict b) =
     (set (map fst a) = set (map fst b) \<and>
      (\<forall>k \<in> set (map fst a).
         case map_of a k of None \<Rightarrow> False
         | Some v \<Rightarrow> (case map_of b k of None \<Rightarrow> False | Some w \<Rightarrow> py_eq v w)))"
| "py_eq _ _ = False"
  by pat_completeness auto
termination
proof (relation "measure (\<lambda>(x, y). size x)", goal_cases)
  case 1
  show ?case by simp
next
  case (2 xs ys z x y)
  then have "x \<in> set xs" by (auto dest: set_zip_leftD)
  then show ?case by (simp add: less_Suc_eq_le size_list_estimation')
next
  case (3 a b k v w)
  then have "(k, v) \<in> set a" by (auto dest: map_of_SomeD)
  then have "size_prod (\<lambda>_. 0) size (k, v) \<le> size_list (size_prod (\<lambda>_. 0) size) a"
    by (rule size_list_estimation') simp
  then show ?case by simp
qed

text \<open>\<^verbatim>\<open>x in xs\<close> for a list \<open>xs\<close>.\<close>

definition py_in :: "pyval \<Rightarrow> pyval list \<Rightarrow> bool" where
  "py_in x xs = list_ex (\<lambda>e. py_eq x e) xs"

text \<open>Truth value of a value, as \<^verbatim>\<open>if v:\<close> and \<^verbatim>\<open>v and ...\<close> take it.\<close>

fun truthy :: "pyval \<Rightarrow> bool" where
  "truthy PNone = False"
| "truthy (PBool b) = b"
| "truthy (PInt n) = (n \<noteq> 0)"
| "truthy (PStr s) = (s \<noteq> [])"
| "truthy (PList xs) = (xs \<noteq> [])"
| "truthy (PDict d) = (d \<noteq> [])"

fun isinstance_dict :: "pyval \<Rightarrow> bool" where
  "isinstance_dict (PDict d) = True"
| "isinstance_dict _ = False"

text \<open>\<^verbatim>\<open>d.get(k, default)\<close> on a dictionary.\<close>

definition dict_get :: "(string \<times> pyval) list \<Rightarrow> string \<Rightarrow> pyval \<Rightarrow> pyval" where
  "dict_get d k dflt = (case map_of d k of None \<Rightarrow> dflt | Some v \<Rightarrow> v)"

text \<open>\<^verbatim>\<open>v.get(k, default)\<close> on any value: only a dictionary has the method.\<close>

fun py_get :: "pyval \<Rightarrow> string \<Rightarrow> pyval \<Rightarrow> error + pyval" where
  "py_get (PDict d) k dflt = Inr (dict_get d k dflt)"
| "py_get _ k dflt = Inl AttributeError"

text \<open>\<^verbatim>\<open>len(v)\<close>.\<close>

fun py_len :: "pyval \<Rightarrow> error + int" where
  "py_len (PStr s) = Inr (int (length s))"
| "py_len (PList xs) = Inr (int (length xs))"
| "py_len (PDict d) = Inr (int (length d))"
| "py_len _ = Inl TypeError"

text \<open>
  \<^verbatim>\<open>v[0]\<close>: the first element of a list, the first character of a string; a dictionary
  with string keys has no key \<^verbatim>\<open>0\<close>; the other values cannot be subscripted.
\<close>

fun py_index0 :: "pyval \<Rightarrow> error + pyval" where
  "py_index0 (PList []) = Inl IndexError"
| "py_index0 (PList (x # xs)) = Inr x"
| "py_index0 (PStr []) = Inl IndexError"
| "py_index0 (PStr (c # s)) = Inr (PStr [c])"
| "py_index0 (PDict d) = Inl KeyError"
| "py_index0 _ = Inl TypeError"

text \<open>
  \<^verbatim>\<open>for x in v\<close>: the elements of a list, the characters of a string, the keys of a
  dictionary.
\<close>

fun py_iter :: "pyval \<Rightarrow> error + pyval list" where
  "py_iter (PList xs) = Inr xs"
| "py_iter (PStr s) = Inr (map (\<lambda>c. PStr [c]) s)"
| "py_iter (PDict d) = Inr (map (\<lambda>kv. PStr (fst kv)) d)"
| "py_iter _ = Inl TypeError"

text \<open>The integer a value stands for in arithmetic and as a dictionary key, if any.\<close>

fun as_int :: "pyval \<Rightarrow> int option" where
  "as_int (PInt n) = Some n"
| "as_int (PBool b) = Some (if b then 1 else 0)"
| "as_int _ = None"

text \<open>Running a fallible function over a list stops at the first error.\<close>

fun map_err :: "('a \<Rightarrow> error + 'b) \<Rightarrow> 'a list \<Rightarrow> error + 'b list" where
  "map_err f [] = Inr []"
| "map_err f (x # xs) =
     (case f x of
        Inl e \<Rightarrow> Inl e
      | Inr y \<Rightarrow> (case map_err f xs of Inl e \<Rightarrow> Inl e | Inr ys \<Rightarrow> Inr (y # ys)))"

section \<open>Result mapping: MapInfo\<close>

record MapInfo =
  TrackID :: pyval
  Name :: pyval
  GbxMapName :: pyval
  Username :: pyval
  UserID :: pyval
  AuthorLogin :: pyval
  EnvironmentName :: pytext
  DifficultyName :: pytext
  VehicleName :: pyval
  MapType :: pyval
  TitlePack :: pyval
  Mood :: pyval
  Length :: pyval
  LengthName :: string
  AwardCount :: pyval
  CommentCount :: pyval
  DownloadCount :: pyval
  ReplayCount :: pyval
  TrackValue :: pyval
  ReplayWRTime :: pyval
  ReplayWRUsername :: pyval
  UploadedAt :: pyval
  UpdatedAt :: pyval
  HasThumbnail :: pyval
  HasImages :: pyval
  Downloadable :: bool

definition enum_map :: "(string \<times> (int \<times> string) list) list" where
  "enum_map =
     [(''environment'', [(0, ''Stadium''), (1, ''Snow''), (2, ''Rally''), (3, ''Desert'')]),
      (''difficulty'', [(0, ''Beginner''), (1, ''Intermediate''), (2, ''Advanced''),
                        (3, ''Expert''), (4, ''Expert+'')])]"

text \<open>
  \<^verbatim>\<open>value in table\<close> hashes the value: a list or a dictionary is unhashable and raises
  TypeError; an integer (or a boolean, which is the integer 0 or 1) is looked up; no other
  value is a key of the table.
\<close>

fun table_lookup :: "(int \<times> string) list \<Rightarrow> pyval \<Rightarrow> error + string option" where
  "table_lookup t (PList xs) = Inl TypeError"
| "table_lookup t (PDict d) = Inl TypeError"
| "table_lookup t v = Inr (case as_int v of None \<Rightarrow> None | Some n \<Rightarrow> map_of t n)"

definition get_enum_name :: "pyval \<Rightarrow> string \<Rightarrow> error + pytext" where
  "get_enum_name v enum_type =
     (case map_of enum_map enum_type of
        None \<Rightarrow> Inr (py_str v)
      | Some t \<Rightarrow>
          (case table_lookup t v of
             Inl e \<Rightarrow> Inl e
           | Inr None \<Rightarrow> Inr (py_str v)
           | Inr (Some name) \<Rightarrow> Inr (Lit name)))"

text \<open>
  \<^verbatim>\<open>length_ms // 1000\<close> is defined on integers (floor division, as \<open>div\<close> on \<open>int\<close>)
  and raises TypeError on \<^verbatim>\<open>None\<close>, strings, lists and dictionaries.
\<close>

definition get_length_name :: "pyval \<Rightarrow> error + string" where
  "get_length_name length_ms =
     (if py_eq length_ms (PInt 0) then Inr ''0-30 sec''
      else case as_int length_ms of
        None \<Rightarrow> Inl TypeError
      | Some ms \<Rightarrow>
          (let seconds = ms div 1000 in
           if seconds < 30 then Inr ''0-30 sec''
           else if seconds < 60 then Inr ''30-60 sec''
           else if seconds < 120 then Inr ''1-2 min''
           else if seconds < 300 then Inr ''2-5 min''
           else Inr ''5+ min''))"

text \<open>
  Lines 179 to 184 of the source: the login of the first author.
  \<^verbatim>\<open>
  authors = json_data.get("Authors", [])
  self.AuthorLogin = ""
  if authors and len(authors) > 0:
      author_user = authors[0].get("User", {})
      if isinstance(author_user, dict):
          self.AuthorLogin = author_user.get("Name", "")
  \<close>
\<close>

definition author_login :: "(string \<times> pyval) list \<Rightarrow> error + pyval" where
  "author_login json_data =
     (let authors = dict_get json_data ''Authors'' (PList []) in
      if \<not> truthy authors then Inr (PStr '''')
      else
        (case py_len authors of
           Inl e \<Rightarrow> Inl e
         | Inr n \<Rightarrow>
             if \<not> (n > 0) then Inr (PStr '''')
             else
               (case py_index0 authors of
                  Inl e \<Rightarrow> Inl e
                | Inr first \<Rightarrow>
                    (case py_get first ''User'' (PDict []) of
                       Inl e \<Rightarrow> Inl e
                     | Inr author_user \<Rightarrow>
                         (case author_user of
                            PDict u \<Rightarrow> Inr (dict_get u ''Name'' (PStr ''''))
                          | _ \<Rightarrow> Inr (PStr ''''))))))"

text \<open>\<^verbatim>\<open>x.get(k, d) if isinstance(x, dict) else other\<close>.\<close>

definition get_if_dict :: "pyval \<Rightarrow> string \<Rightarrow> pyval \<Rightarrow> pyval \<Rightarrow> pyval" where
  "get_if_dict x k dflt other = (case x of PDict d \<Rightarrow> dict_get d k dflt | _ \<Rightarrow> other)"

text \<open>
  \<^verbatim>\<open>MapInfo.__init__\<close>. The argument must have a \<^verbatim>\<open>get\<close> method; the statements that
  can raise are, in the order of the source, the author lookup, the two enum names and
  the length name.
\<close>

fun MapInfo_init :: "pyval \<Rightarrow> error + MapInfo" where
  "MapInfo_init (PDict json_data) =
     (let uploader = dict_get json_data ''Uploader'' (PDict []);
          online_wr = dict_get json_data ''OnlineWR'' (PDict []);
          len = dict_get json_data ''Length'' (PInt 0)
      in
      (case author_login json_data of
        Inl e \<Rightarrow> Inl e
      | Inr login \<Rightarrow>
      (case get_enum_name (dict_get json_data ''Environment'' PNone) ''environment'' of
        Inl e \<Rightarrow> Inl e
      | Inr env_name \<Rightarrow>
      (case get_enum_name (dict_get json_data ''Difficulty'' PNone) ''difficulty'' of
        Inl e \<Rightarrow> Inl e
      | Inr diff_name \<Rightarrow>
      (case get_length_name len of
        Inl e \<Rightarrow> Inl e
      | Inr len_name \<Rightarrow>
      Inr \<lparr> TrackID = dict_get json_data ''MapId'' PNone,
            Name = dict_get json_data ''Name'' (PStr ''''),
            GbxMapName = dict_get json_data ''GbxMapName'' (PStr ''''),
            Username = get_if_dict uploader ''Name'' (PStr '''') (PStr ''''),
            UserID = get_if_dict uploader ''UserId'' PNone PNone,
            AuthorLogin = login,
            EnvironmentName = env_name,
            DifficultyName = diff_name,
            VehicleName = dict_get json_data ''VehicleName'' (PStr ''''),
            MapType = dict_get json_data ''MapType'' (PStr ''''),
            TitlePack = dict_get json_data ''TitlePack'' (PStr ''''),
            Mood = dict_get json_data ''Mood'' (PStr ''''),
            Length = len,
            LengthName = len_name,
            AwardCount = dict_get json_data ''AwardCount'' (PInt 0),
            CommentCount = dict_get json_data ''CommentCount'' (PInt 0),
            DownloadCount = dict_get json_data ''DownloadCount'' (PInt 0),
            ReplayCount = dict_get json_data ''ReplayCount'' (PInt 0),
            TrackValue = dict_get json_data ''TrackValue'' (PInt 0),
            ReplayWRTime = get_if_dict online_wr ''RecordTime'' (PInt 0) (PInt 0),
            ReplayWRUsername =
              (case online_wr of
                 PDict w \<Rightarrow>
                   get_if_dict (dict_get w ''User'' (PDict [])) ''Name'' (PStr '''') (PStr '''')
               | _ \<Rightarrow> PStr ''''),
            UploadedAt = dict_get json_data ''UploadedAt'' (PStr ''''),
            UpdatedAt = dict_get json_data ''UpdatedAt'' (PStr ''''),
            HasThumbnail = dict_get json_data ''HasThumbnail'' (PBool False),
            HasImages = dict_get json_data ''HasImages'' (PBool False),
            Downloadable = True \<rparr>)))))"
| "MapInfo_init _ = Inl AttributeError"

text \<open>
  The mapping part of \<^verbatim>\<open>SearchWorker.run\<close>, from the decoded response to the list it
  emits; \<open>Inl\<close> is the exception its handler turns into the error signal.
  \<^verbatim>\<open>
  if isinstance(data, dict) and "Results" in data:
      maps = [MapInfo(m) for m in data["Results"]]
      self.finished.emit(maps)
  else:
      self.finished.emit([])
  \<close>
\<close>

definition search_results :: "pyval \<Rightarrow> error + MapInfo list" where
  "search_results data =
     (case data of
        PDict d \<Rightarrow>
          (case map_of d ''Results'' of
             None \<Rightarrow> Inr []
           | Some results \<Rightarrow>
               (case py_iter results of
                  Inl e \<Rightarrow> Inl e
                | Inr ms \<Rightarrow> map_err MapInfo_init ms))
      | _ \<Rightarrow> Inr [])"

section \<open>Result mapping: MappackInfo\<close>

record MappackInfo =
  pack_ID :: pyval
  pack_Name :: pyval
  pack_Username :: pyval
  pack_TrackCount :: pyval
  pack_Description :: pyval
  pack_DownloadCount :: pyval

fun MappackInfo_init :: "pyval \<Rightarrow> error + MappackInfo" where
  "MappackInfo_init (PDict json_data) =
     (let owner = dict_get json_data ''Owner'' (PDict []) in
      Inr \<lparr> pack_ID = dict_get json_data ''MappackId'' PNone,
            pack_Name = dict_get json_data ''Name'' (PStr ''''),
            pack_Username = get_if_dict owner ''Name'' (PStr '''') (PStr ''''),
            pack_TrackCount = dict_get json_data ''TrackCount'' (PInt 0),
            pack_Description = dict_get json_data ''Description'' (PStr ''''),
            pack_DownloadCount = dict_get json_data ''DownloadCount'' (PInt 0) \<rparr>)"
| "MappackInfo_init _ = Inl AttributeError"

section \<open>Query builder\<close>

definition COMMON_FIELDS :: "string list" where
  "COMMON_FIELDS =
     [''MapId'', ''Name'', ''GbxMapName'', ''Uploader.UserId'', ''Uploader.Name'',
      ''Environment'', ''Difficulty'', ''Length'', ''Vehicle'', ''MapType'',
      ''CommentCount'', ''DownloadCount'', ''ReplayCount'', ''AwardCount'',
      ''UploadedAt'', ''UpdatedAt'', ''ActivityAt'', ''HasThumbnail'',
      ''HasImages'', ''TrackValue'', ''OnlineWR'', ''TitlePack'',
      ''Style'', ''Mood'', ''Routes'', ''Type'', ''Authors'', ''Tags'']"

text \<open>\<^verbatim>\<open>sep.join(xs)\<close>.\<close>

fun join :: "string \<Rightarrow> string list \<Rightarrow> string" where
  "join sep [] = []"
| "join sep [x] = x"
| "join sep (x # y # ys) = x @ sep @ join sep (y # ys)"

text \<open>
  \<^verbatim>\<open>s.strip()\<close> removes leading and trailing white space. Among the code points below
  256, \<^verbatim>\<open>str.isspace\<close> holds of 9 to 13, 28 to 32, 133 and 160.
\<close>

definition py_isspace :: "char \<Rightarrow> bool" where
  "py_isspace c =
     (let n = (of_char c :: nat)
      in (9 \<le> n \<and> n \<le> 13) \<or> (28 \<le> n \<and> n \<le> 32) \<or> n = 133 \<or> n = 160)"

definition strip :: "string \<Rightarrow> string" where
  "strip s = rev (dropWhile py_isspace (rev (dropWhile py_isspace s)))"

text \<open>The table \<^verbatim>\<open>self.sort_options\<close> of \<^verbatim>\<open>create_browse_tab\<close>; its keys fill the sort box.\<close>

definition sort_options :: "(string \<times> int) list" where
  "sort_options =
     [(''Uploaded (Newest)'', 6),
      (''Uploaded (Oldest)'', 5),
      (''Updated (Newest)'', 8),
      (''Name (A-Z)'', 1),
      (''Name (Z-A)'', 2),
      (''Awards (Most)'', 12),
      (''Awards (Least)'', 11),
      (''Difficulty (Hardest)'', 16),
      (''Difficulty (Easiest)'', 15),
      (''Length (Longest)'', 18),
      (''Length (Shortest)'', 17),
      (''Downloads (Most)'', 20),
      (''Downloads (Least)'', 19),
      (''Rating (Most)'', 30),
      (''Rating (Least)'', 29)]"

definition env_map :: "(string \<times> int) list" where
  "env_map = [(''Stadium'', 0), (''Snow'', 1), (''Rally'', 2), (''Desert'', 3)]"

definition diff_map :: "(string \<times> int) list" where
  "diff_map = [(''Beginner'', 0), (''Intermediate'', 1), (''Advanced'', 2), (''Expert'', 3)]"

definition length_map :: "(string \<times> int \<times> int) list" where
  "length_map =
     [(''0-30 sec'', (0, 30000)),
      (''30-60 sec'', (30000, 60000)),
      (''1-2 min'', (60000, 120000)),
      (''2-5 min'', (120000, 300000)),
      (''5+ min'', (300000, 999999999))]"

text \<open>
  The widgets \<^verbatim>\<open>search_browse\<close> reads: the text of the two line edits, the current text
  of the four combo boxes, and the number put into the spin box \<^verbatim>\<open>limit_spin\<close>. The
  spin box was given the range 10 to 100 (\<^verbatim>\<open>setRange(10, 100)\<close>), and a
  \<^verbatim>\<open>QSpinBox\<close> bounds every value it is given to its range, so \<^verbatim>\<open>limit_spin.value()\<close>
  is \<open>spin_value\<close> of that number.
\<close>

record search_form =
  name_input :: string
  author_input :: string
  sort_combo :: string
  env_combo :: string
  difficulty_combo :: string
  length_combo :: string
  limit_spin :: int

definition spin_value :: "int \<Rightarrow> int" where
  "spin_value v = max 10 (min 100 v)"

text \<open>
  \<^verbatim>\<open>search_browse\<close>: the dictionary \<^verbatim>\<open>params\<close> it hands to the worker. Assignment to a
  key of a Python dictionary is \<open>AList.update\<close>: in place when the key is there, at
  the end otherwise.
\<close>

definition search_browse :: "search_form \<Rightarrow> (string \<times> pyval) list" where
  "search_browse f =
     (let params = [];
          name = strip (name_input f);
          params = (if name \<noteq> [] then AList.update ''name'' (PStr name) params else params);
          author = strip (author_input f);
          params = (if author \<noteq> [] then AList.update ''author'' (PStr author) params
                    else params);
          params = (case map_of sort_options (sort_combo f) of
                      Some n \<Rightarrow> AList.update ''order1'' (PInt n) params
                    | None \<Rightarrow> params);
          params = (if env_combo f \<noteq> ''All'' then
                      (case map_of env_map (env_combo f) of
                         Some n \<Rightarrow> AList.update ''environment'' (PInt n) params
                       | None \<Rightarrow> params)
                    else params);
          params = (if difficulty_combo f \<noteq> ''All'' then
                      (case map_of diff_map (difficulty_combo f) of
                         Some n \<Rightarrow> AList.update ''difficulty'' (PInt n) params
                       | None \<Rightarrow> params)
                    else params);
          params = (if length_combo f \<noteq> ''All'' then
                      (case map_of length_map (length_combo f) of
                         Some (min_len, max_len) \<Rightarrow>
                           AList.update ''lengthmax'' (PInt max_len)
                             (AList.update ''lengthmin'' (PInt min_len) params)
                       | None \<Rightarrow> params)
                    else params)
      in AList.update ''count'' (PInt (spin_value (limit_spin f))) params)"

text \<open>
  The six conditional statements of \<^verbatim>\<open>search_browse\<close>, each as a function of the
  dictionary built so far. They serve the proofs: \<open>search_browse\<close> is their composition
  (lemma \<open>search_browse_steps\<close>).
\<close>

definition name_step :: "search_form \<Rightarrow> (string \<times> pyval) list \<Rightarrow> (string \<times> pyval) list" where
  "name_step f params =
     (if strip (name_input f) \<noteq> [] then AList.update ''name'' (PStr (strip (name_input f))) params
      else params)"

definition author_step :: "search_form \<Rightarrow> (string \<times> pyval) list \<Rightarrow> (string \<times> pyval) list" where
  "author_step f params =
     (if strip (author_input f) \<noteq> []
      then AList.update ''author'' (PStr (strip (author_input f))) params
      else params)"

definition sort_step :: "search_form \<Rightarrow> (string \<times> pyval) list \<Rightarrow> (string \<times> pyval) list" where
  "sort_step f params =
     (case map_of sort_options (sort_combo f) of
        Some n \<Rightarrow> AList.update ''order1'' (PInt n) params
      | None \<Rightarrow> params)"

definition env_step :: "search_form \<Rightarrow> (string \<times> pyval) list \<Rightarrow> (string \<times> pyval) list" where
  "env_step f params =
     (if env_combo f \<noteq> ''All'' then
        (case map_of env_map (env_combo f) of
           Some n \<Rightarrow> AList.update ''environment'' (PInt n) params
         | None \<Rightarrow> params)
      else params)"

definition difficulty_step ::
  "search_form \<Rightarrow> (string \<times> pyval) list \<Rightarrow> (string \<times> pyval) list" where
  "difficulty_step f params =
     (if difficulty_combo f \<noteq> ''All'' then
        (case map_of diff_map (difficulty_combo f) of
           Some n \<Rightarrow> AList.update ''difficulty'' (PInt n) params
         | None \<Rightarrow> params)
      else params)"

definition length_step :: "search_form \<Rightarrow> (string \<times> pyval) list \<Rightarrow> (string \<times> pyval) list" where
  "length_step f params =
     (if length_combo f \<noteq> ''All'' then
        (case map_of length_map (length_combo f) of
           Some (min_len, max_len) \<Rightarrow>
             AList.update ''lengthmax'' (PInt max_len)
               (AList.update ''lengthmin'' (PInt min_len) params)
         | None \<Rightarrow> params)
      else params)"

text \<open>\<^verbatim>\<open>SearchWorker.run\<close> adds the projection before it sends the request.\<close>

definition SearchWorker_params :: "(string \<times> pyval) list \<Rightarrow> (string \<times> pyval) list" where
  "SearchWorker_params params = AList.update ''fields'' (PStr (join '','' COMMON_FIELDS)) params"

text \<open>The query that a press of the search button sends.\<close>

definition search_query :: "search_form \<Rightarrow> (string \<times> pyval) list" where
  "search_query f = SearchWorker_params (search_browse f)"

section \<open>Favorites store\<close>

text \<open>
  The favorites file \<^verbatim>\<open>FAVORITES_FILE\<close>: missing (\<open>None\<close>), or holding text that
  \<^verbatim>\<open>json.load\<close> rejects (\<open>Malformed\<close>: an empty or a cut-off file among others), or
  holding the text of a JSON document. The text of a document is identified with the
  value that \<^verbatim>\<open>json.load\<close> reads from it, and \<^verbatim>\<open>json.dump\<close> of a value writes the
  document of that value.
\<close>

datatype file_content = Malformed | Document pyval

type_synonym disk = "file_content option"

text \<open>
  The dictionary \<^verbatim>\<open>self.favorites\<close>, which always has exactly the two keys
  \<^verbatim>\<open>"maps"\<close> and \<^verbatim>\<open>"mappacks"\<close>; what is stored under them comes from the file.
\<close>

record fav_store =
  maps :: pyval
  mappacks :: pyval

definition favorites_json :: "fav_store \<Rightarrow> pyval" where
  "favorites_json favs = PDict [(''maps'', maps favs), (''mappacks'', mappacks favs)]"

definition empty_favorites :: fav_store where
  "empty_favorites = \<lparr> maps = PList [], mappacks = PList [] \<rparr>"

text \<open>
  The body of the \<^verbatim>\<open>try\<close> of \<^verbatim>\<open>Config.load_favorites\<close>: \<open>Inr None\<close> when the file does
  not exist and the body falls through, \<open>Inl\<close> when it raises.
\<close>

definition load_favorites_try :: "disk \<Rightarrow> error + fav_store option" where
  "load_favorites_try d =
     (case d of
        None \<Rightarrow> Inr None
      | Some Malformed \<Rightarrow> Inl JSONDecodeError
      | Some (Document data) \<Rightarrow>
          (case py_get data ''maps'' (PList []) of
             Inl e \<Rightarrow> Inl e
           | Inr m \<Rightarrow>
               (case py_get data ''mappacks'' (PList []) of
                  Inl e \<Rightarrow> Inl e
                | Inr p \<Rightarrow> Inr (Some \<lparr> maps = m, mappacks = p \<rparr>))))"

text \<open>
  \<^verbatim>\<open>Config.load_favorites\<close>: the store and the lines it prints (the text of the exception,
  which the source appends to the line, is left out).
\<close>

definition Config_load_favorites :: "disk \<Rightarrow> fav_store \<times> string list" where
  "Config_load_favorites d =
     (case load_favorites_try d of
        Inl e \<Rightarrow> (empty_favorites, [''[ERROR] Favorites loading error''])
      | Inr None \<Rightarrow> (empty_favorites, [])
      | Inr (Some favs) \<Rightarrow> (favs, []))"

text \<open>
  What the environment does to one call of \<^verbatim>\<open>Config.save_favorites\<close>: everything
  works, or \<^verbatim>\<open>open\<close> raises, or \<^verbatim>\<open>json.dump\<close> raises before it has written the whole
  document.
\<close>

datatype io_outcome = Completes | OpenFails | DumpFails

text \<open>
  \<^verbatim>\<open>open(FAVORITES_FILE, 'w', encoding='utf-8')\<close> creates the file or cuts it to length
  zero, and an empty file is no JSON document.
\<close>

definition open_w :: "io_outcome \<Rightarrow> disk \<Rightarrow> error + disk" where
  "open_w io d = (if io = OpenFails then Inl OSError else Inr (Some Malformed))"

text \<open>
  \<^verbatim>\<open>json.dump(favorites, f, indent=2, ensure_ascii=False)\<close> writes the encoding to the
  open file piece by piece; when it raises, the pieces written so far stay in the file.
\<close>

definition json_dump :: "io_outcome \<Rightarrow> pyval \<Rightarrow> disk \<Rightarrow> disk \<times> error option" where
  "json_dump io v d =
     (if io = DumpFails then (Some Malformed, Some TypeError) else (Some (Document v), None))"

definition Config_save_favorites :: "io_outcome \<Rightarrow> fav_store \<Rightarrow> disk \<Rightarrow> disk \<times> string list" where
  "Config_save_favorites io favs d =
     (case open_w io d of
        Inl e \<Rightarrow> (d, [''[ERROR] Favorites saving error''])
      | Inr d1 \<Rightarrow>
          (case json_dump io (favorites_json favs) d1 of
             (d2, Some e) \<Rightarrow> (d2, [''[ERROR] Favorites saving error''])
           | (d2, None) \<Rightarrow> (d2, [''[CONFIG] Favorites saved''])))"

section \<open>Favorites in the window\<close>

text \<open>An item of the list widget \<^verbatim>\<open>favorites_list\<close>: its text and its two data roles.\<close>

record fav_item =
  item_text :: "pytext list"
  item_id :: pyval
  item_type :: string

text \<open>
  The three display fields that \<^verbatim>\<open>load_favorites\<close> of the window takes from an entry
  \<^verbatim>\<open>fav\<close>, which is an object or a bare identifier:
  \<^verbatim>\<open>
  map_id = fav.get("id") if isinstance(fav, dict) else fav
  map_name = fav.get("name", "Unknown") if isinstance(fav, dict) else f"Map {fav}"
  map_author = fav.get("author", "Unknown") if isinstance(fav, dict) else "Unknown"
  \<close>
\<close>

definition fav_id :: "pyval \<Rightarrow> pyval" where
  "fav_id fav = (case fav of PDict d \<Rightarrow> dict_get d ''id'' PNone | _ \<Rightarrow> fav)"

definition fav_name :: "string \<Rightarrow> pyval \<Rightarrow> pytext list" where
  "fav_name kind fav =
     (case fav of
        PDict d \<Rightarrow> [py_str (dict_get d ''name'' (PStr ''Unknown''))]
      | _ \<Rightarrow> [Lit (kind @ '' ''), py_str fav])"

definition fav_author :: "pyval \<Rightarrow> pyval" where
  "fav_author fav = get_if_dict fav ''author'' (PStr ''Unknown'') (PStr ''Unknown'')"

definition author_text :: "pyval \<Rightarrow> pytext list" where
  "author_text author =
     (if \<not> py_eq author (PStr ''Unknown'')
      then [Lit '' | '', Pict ''bust in silhouette'', Lit '' '', py_str author]
      else [])"

definition map_item :: "pyval \<Rightarrow> fav_item" where
  "map_item fav =
     \<lparr> item_text = [Pict ''chequered flag'', Lit '' ''] @ fav_name ''Map'' fav
                     @ author_text (fav_author fav),
       item_id = fav_id fav,
       item_type = ''map'' \<rparr>"

text \<open>\<^verbatim>\<open>maps_count > 0\<close> compares numbers and raises TypeError on every other value.\<close>

definition py_gt0 :: "pyval \<Rightarrow> error + bool" where
  "py_gt0 v = (case as_int v of None \<Rightarrow> Inl TypeError | Some n \<Rightarrow> Inr (n > 0))"

definition mappack_item :: "pyval \<Rightarrow> error + fav_item" where
  "mappack_item fav =
     (let maps_count = get_if_dict fav ''map_count'' (PInt 0) (PInt 0) in
      case py_gt0 maps_count of
        Inl e \<Rightarrow> Inl e
      | Inr positive \<Rightarrow>
          Inr \<lparr> item_text = [Pict ''package'', Lit '' ''] @ fav_name ''Mappack'' fav
                            @ author_text (fav_author fav)
                            @ (if positive
                               then [Lit '' | '', Pict ''world map'', Lit '' '', py_str maps_count]
                               else []),
                item_id = fav_id fav,
                item_type = ''mappack'' \<rparr>)"

text \<open>
  \<^verbatim>\<open>TrackmaniaExchangeBrowser.load_favorites\<close>: the items of the list widget, maps
  first; \<open>Inl\<close> when one of the two loops raises.
\<close>

definition load_favorites :: "fav_store \<Rightarrow> error + fav_item list" where
  "load_favorites favs =
     (case py_iter (maps favs) of
        Inl e \<Rightarrow> Inl e
      | Inr ms \<Rightarrow>
          (case py_iter (mappacks favs) of
             Inl e \<Rightarrow> Inl e
           | Inr ps \<Rightarrow>
               (case map_err mappack_item ps of
                  Inl e \<Rightarrow> Inl e
                | Inr items \<Rightarrow> Inr (map map_item ms @ items))))"

text \<open>The part of the window that the favorites operations read and write.\<close>

record browser =
  favorites :: fav_store
  selected_map :: "MapInfo option"
  selected_mappack :: "MappackInfo option"
  status_label :: "pytext list"
  favorites_list :: "fav_item list"
  favorites_file :: disk
  printed :: "string list"

text \<open>
  \<^verbatim>\<open>fav["id"]\<close>: the value under the key for an object, KeyError when the object has no
  such key, TypeError for every value that is no object.
\<close>

fun subscript_id :: "pyval \<Rightarrow> error + pyval" where
  "subscript_id (PDict d) = (case map_of d ''id'' of None \<Rightarrow> Inl KeyError | Some v \<Rightarrow> Inr v)"
| "subscript_id _ = Inl TypeError"

text \<open>\<^verbatim>\<open>[fav["id"] for fav in favs]\<close>.\<close>

definition id_list :: "pyval \<Rightarrow> error + pyval list" where
  "id_list favs =
     (case py_iter favs of Inl e \<Rightarrow> Inl e | Inr xs \<Rightarrow> map_err subscript_id xs)"

text \<open>\<^verbatim>\<open>favs.append(entry)\<close>: a method of lists only.\<close>

fun py_append :: "pyval \<Rightarrow> pyval \<Rightarrow> error + pyval" where
  "py_append (PList xs) entry = Inr (PList (xs @ [entry]))"
| "py_append _ entry = Inl AttributeError"

text \<open>
  The end of the three operations: \<^verbatim>\<open>self.config.save_favorites(self.favorites)\<close>, the
  status text if there is one, and \<^verbatim>\<open>self.load_favorites()\<close>.
\<close>

definition save_and_reload ::
  "io_outcome \<Rightarrow> fav_store \<Rightarrow> pytext list option \<Rightarrow> browser \<Rightarrow> error + browser" where
  "save_and_reload io favs status b =
     (let (d, lines) = Config_save_favorites io favs (favorites_file b) in
      case load_favorites favs of
        Inl e \<Rightarrow> Inl e
      | Inr items \<Rightarrow>
          Inr (b \<lparr> favorites := favs,
                   favorites_file := d,
                   printed := printed b @ lines,
                   status_label := (case status of None \<Rightarrow> status_label b | Some t \<Rightarrow> t),
                   favorites_list := items \<rparr>))"

definition already_in_favorites :: "pytext list" where
  "already_in_favorites = [Pict ''warning'', Lit '' Already in favorites'']"

text \<open>The two dictionaries \<^verbatim>\<open>fav_entry\<close> that the add operations build.\<close>

definition map_fav_entry :: "MapInfo \<Rightarrow> pyval" where
  "map_fav_entry m =
     PDict [(''id'', TrackID m), (''name'', Name m), (''author'', Username m)]"

definition mappack_fav_entry :: "MappackInfo \<Rightarrow> pyval" where
  "mappack_fav_entry p =
     PDict [(''id'', pack_ID p), (''name'', pack_Name p), (''author'', pack_Username p),
            (''map_count'', pack_TrackCount p)]"

definition add_to_favorites :: "io_outcome \<Rightarrow> browser \<Rightarrow> error + browser" where
  "add_to_favorites io b =
     (case selected_map b of
        None \<Rightarrow> Inr b
      | Some m \<Rightarrow>
          (case id_list (maps (favorites b)) of
             Inl e \<Rightarrow> Inl e
           | Inr map_ids \<Rightarrow>
               if py_in (TrackID m) map_ids
               then Inr (b \<lparr> status_label := already_in_favorites \<rparr>)
               else
                 (let fav_entry = map_fav_entry m
                  in case py_append (maps (favorites b)) fav_entry of
                       Inl e \<Rightarrow> Inl e
                     | Inr ms \<Rightarrow>
                         save_and_reload io ((favorites b) \<lparr> maps := ms \<rparr>)
                           (Some [Pict ''star'', Lit '' Added to favorites'']) b)))"

definition add_mappack_to_favorites :: "io_outcome \<Rightarrow> browser \<Rightarrow> error + browser" where
  "add_mappack_to_favorites io b =
     (case selected_mappack b of
        None \<Rightarrow> Inr b
      | Some p \<Rightarrow>
          (case id_list (mappacks (favorites b)) of
             Inl e \<Rightarrow> Inl e
           | Inr mappack_ids \<Rightarrow>
               if py_in (pack_ID p) mappack_ids
               then Inr (b \<lparr> status_label := already_in_favorites \<rparr>)
               else
                 (let fav_entry = mappack_fav_entry p
                  in case py_append (mappacks (favorites b)) fav_entry of
                       Inl e \<Rightarrow> Inl e
                     | Inr ps \<Rightarrow>
                         save_and_reload io ((favorites b) \<lparr> mappacks := ps \<rparr>)
                           (Some [Pict ''star'', Lit '' Mappack added to favorites'']) b)))"

text \<open>\<^verbatim>\<open>[fav for fav in favs if fav["id"] != item_id]\<close> on the elements of \<open>favs\<close>.\<close>

fun without_id :: "pyval \<Rightarrow> pyval list \<Rightarrow> error + pyval list" where
  "without_id i [] = Inr []"
| "without_id i (fav # favs) =
     (case subscript_id fav of
        Inl e \<Rightarrow> Inl e
      | Inr v \<Rightarrow>
          (case without_id i favs of
             Inl e \<Rightarrow> Inl e
           | Inr rest \<Rightarrow> Inr (if \<not> py_eq v i then fav # rest else rest)))"

definition filter_out :: "pyval \<Rightarrow> pyval \<Rightarrow> error + pyval" where
  "filter_out i favs =
     (case py_iter favs of
        Inl e \<Rightarrow> Inl e
      | Inr xs \<Rightarrow> (case without_id i xs of Inl e \<Rightarrow> Inl e | Inr ys \<Rightarrow> Inr (PList ys)))"

text \<open>
  \<^verbatim>\<open>remove_favorite\<close>; \<open>current\<close> is \<^verbatim>\<open>self.favorites_list.currentItem()\<close>, the selected
  item of the list widget if there is one.
\<close>

definition remove_favorite :: "io_outcome \<Rightarrow> fav_item option \<Rightarrow> browser \<Rightarrow> error + browser" where
  "remove_favorite io current b =
     (case current of
        None \<Rightarrow> Inr b
      | Some item \<Rightarrow>
          if item_type item = ''map'' then
            (case filter_out (item_id item) (maps (favorites b)) of
               Inl e \<Rightarrow> Inl e
             | Inr ms \<Rightarrow> save_and_reload io ((favorites b) \<lparr> maps := ms \<rparr>) None b)
          else
            (case filter_out (item_id item) (mappacks (favorites b)) of
               Inl e \<Rightarrow> Inl e
             | Inr ps \<Rightarrow> save_and_reload io ((favorites b) \<lparr> mappacks := ps \<rparr>) None b))"

section \<open>Entries of the favorites lists\<close>

text \<open>
  The favorites file holds, in each list, objects \<^verbatim>\<open>{id, name, author, map_count?}\<close> or
  bare identifiers (the older format). \<open>has_id\<close> holds of an object with the key
  \<^verbatim>\<open>"id"\<close>; \<open>is_entry\<close> holds of such an object whose \<^verbatim>\<open>map_count\<close>, when it has
  one, is a number; \<open>is_bare\<close> holds of every value that is no object.
\<close>

fun has_id :: "pyval \<Rightarrow> bool" where
  "has_id (PDict d) = (map_of d ''id'' \<noteq> None)"
| "has_id _ = False"

fun is_entry :: "pyval \<Rightarrow> bool" where
  "is_entry (PDict d) =
     (map_of d ''id'' \<noteq> None \<and>
      (case map_of d ''map_count'' of None \<Rightarrow> True | Some c \<Rightarrow> as_int c \<noteq> None))"
| "is_entry _ = False"

definition is_bare :: "pyval \<Rightarrow> bool" where
  "is_bare fav = (\<not> isinstance_dict fav)"

text \<open>The number of entries of a list whose identity equals \<open>i\<close>.\<close>

definition count_id :: "pyval \<Rightarrow> pyval list \<Rightarrow> nat" where
  "count_id i favs = length (filter (\<lambda>fav. py_eq (fav_id fav) i) favs)"

text \<open>The invariant of the data model: no identity occurs twice in a list.\<close>

fun no_duplicate_ids :: "pyval list \<Rightarrow> bool" where
  "no_duplicate_ids [] = True"
| "no_duplicate_ids (fav # favs) =
     (\<not> py_in (fav_id fav) (map fav_id favs) \<and> no_duplicate_ids favs)"

section \<open>Example states\<close>

text \<open>
  The record that \<^verbatim>\<open>MapInfo\<close> builds from
  \<^verbatim>\<open>{"MapId":42,"Name":"Test Track","Length":45000,"Environment":1}\<close>, and two windows in
  which it is selected: one whose favorites hold this map, one other map and a mappack
  stored in the older format as the bare identifier 7, and one with no favorites.
\<close>

definition test_track :: MapInfo where
  "test_track =
     \<lparr> TrackID = PInt 42, Name = PStr ''Test Track'', GbxMapName = PStr '''',
       Username = PStr '''', UserID = PNone, AuthorLogin = PStr '''',
       EnvironmentName = Lit ''Snow'', DifficultyName = Str PNone,
       VehicleName = PStr '''', MapType = PStr '''', TitlePack = PStr '''',
       Mood = PStr '''', Length = PInt 45000, LengthName = ''30-60 sec'',
       AwardCount = PInt 0, CommentCount = PInt 0, DownloadCount = PInt 0,
       ReplayCount = PInt 0, TrackValue = PInt 0, ReplayWRTime = PInt 0,
       ReplayWRUsername = PStr '''', UploadedAt = PStr '''', UpdatedAt = PStr '''',
       HasThumbnail = PBool False, HasImages = PBool False, Downloadable = True \<rparr>"

definition some_favorites :: "pyval list" where
  "some_favorites =
     [PDict [(''id'', PInt 7), (''name'', PStr ''A01''), (''author'', PStr ''Nadeo'')],
      PDict [(''id'', PInt 42), (''name'', PStr ''Test Track''), (''author'', PStr '''')]]"

definition window_with_favorites :: browser where
  "window_with_favorites =
     \<lparr> favorites = \<lparr> maps = PList some_favorites, mappacks = PList [PInt 7] \<rparr>,
       selected_map = Some test_track,
       selected_mappack = None,
       status_label = [Lit ''Ready''],
       favorites_list = [],
       favorites_file = None,
       printed = [] \<rparr>"

definition window_without_favorites :: browser where
  "window_without_favorites =
     \<lparr> favorites = \<lparr> maps = PList [], mappacks = PList [] \<rparr>,
       selected_map = Some test_track,
       selected_mappack = None,
       status_label = [Lit ''Ready''],
       favorites_list = [],
       favorites_file = None,
       printed = [] \<rparr>"

section \<open>Equality of values is an equivalence\<close>


lemma map_of_key: "k \<in> set (map fst a) \<Longrightarrow> \<exists>v. map_of a k = Some v"
  by (induction a) auto







section \<open>Properties of the query builder\<close>

lemma search_browse_steps:
  "search_browse f =
     AList.update ''count'' (PInt (spin_value (limit_spin f)))
       (length_step f (difficulty_step f (env_step f (sort_step f
          (author_step f (name_step f []))))))"
  unfolding search_browse_def name_step_def author_step_def sort_step_def env_step_def
    difficulty_step_def length_step_def Let_def ..

lemma name_step_other: "k \<noteq> ''name'' \<Longrightarrow> map_of (name_step f p) k = map_of p k"
  by (simp add: name_step_def update_conv')

lemma author_step_other: "k \<noteq> ''author'' \<Longrightarrow> map_of (author_step f p) k = map_of p k"
  by (simp add: author_step_def update_conv')

lemma sort_step_other: "k \<noteq> ''order1'' \<Longrightarrow> map_of (sort_step f p) k = map_of p k"
  by (simp add: sort_step_def update_conv' split: option.split)

lemma env_step_other: "k \<noteq> ''environment'' \<Longrightarrow> map_of (env_step f p) k = map_of p k"
  by (simp add: env_step_def update_conv' split: option.split)

lemma difficulty_step_other:
  "k \<noteq> ''difficulty'' \<Longrightarrow> map_of (difficulty_step f p) k = map_of p k"
  by (simp add: difficulty_step_def update_conv' split: option.split)

lemma length_step_min:
  "map_of (length_step f p) ''lengthmin'' =
     (if length_combo f = ''All'' then map_of p ''lengthmin''
      else case map_of length_map (length_combo f) of
        None \<Rightarrow> map_of p ''lengthmin'' | Some r \<Rightarrow> Some (PInt (fst r)))"
  by (simp add: length_step_def update_conv' split: option.split)

lemma length_step_max:
  "map_of (length_step f p) ''lengthmax'' =
     (if length_combo f = ''All'' then map_of p ''lengthmax''
      else case map_of length_map (length_combo f) of
        None \<Rightarrow> map_of p ''lengthmax'' | Some r \<Rightarrow> Some (PInt (snd r)))"
  by (simp add: length_step_def update_conv' split: option.split)

lemmas step_other =
  name_step_other author_step_other sort_step_other env_step_other difficulty_step_other

lemma query_lengthmin:
  "map_of (search_query f) ''lengthmin'' =
     (if length_combo f = ''All'' then None
      else map_option (\<lambda>r. PInt (fst r)) (map_of length_map (length_combo f)))"
  by (simp add: search_query_def SearchWorker_params_def search_browse_steps update_conv'
      length_step_min step_other split: option.split)

lemma query_lengthmax:
  "map_of (search_query f) ''lengthmax'' =
     (if length_combo f = ''All'' then None
      else map_option (\<lambda>r. PInt (snd r)) (map_of length_map (length_combo f)))"
  by (simp add: search_query_def SearchWorker_params_def search_browse_steps update_conv'
      length_step_max step_other split: option.split)

text \<open>
  Claim C5. For each of the five length buckets the query holds the pair
  \<^verbatim>\<open>lengthmin\<close>, \<^verbatim>\<open>lengthmax\<close> of the fixed table, with 999999999 as the upper bound
  of the last bucket; with the selection \<^verbatim>\<open>All\<close> it holds neither key. This is so
  whatever the other widgets hold.
\<close>

theorem length_bucket_table:
  "(length_combo f = ''0-30 sec'' \<longrightarrow>
      map_of (search_query f) ''lengthmin'' = Some (PInt 0) \<and>
      map_of (search_query f) ''lengthmax'' = Some (PInt 30000)) \<and>
   (length_combo f = ''30-60 sec'' \<longrightarrow>
      map_of (search_query f) ''lengthmin'' = Some (PInt 30000) \<and>
      map_of (search_query f) ''lengthmax'' = Some (PInt 60000)) \<and>
   (length_combo f = ''1-2 min'' \<longrightarrow>
      map_of (search_query f) ''lengthmin'' = Some (PInt 60000) \<and>
      map_of (search_query f) ''lengthmax'' = Some (PInt 120000)) \<and>
   (length_combo f = ''2-5 min'' \<longrightarrow>
      map_of (search_query f) ''lengthmin'' = Some (PInt 120000) \<and>
      map_of (search_query f) ''lengthmax'' = Some (PInt 300000)) \<and>
   (length_combo f = ''5+ min'' \<longrightarrow>
      map_of (search_query f) ''lengthmin'' = Some (PInt 300000) \<and>
      map_of (search_query f) ''lengthmax'' = Some (PInt 999999999)) \<and>
   (length_combo f = ''All'' \<longrightarrow>
      map_of (search_query f) ''lengthmin'' = None \<and>
      map_of (search_query f) ''lengthmax'' = None)"
  by (simp add: query_lengthmin query_lengthmax length_map_def)

theorem length_bucket_table_witness:
  "map_of (search_query
      \<lparr> name_input = ''ice'', author_input = '''', sort_combo = ''Awards (Most)'',
        env_combo = ''Snow'', difficulty_combo = ''All'', length_combo = ''30-60 sec'',
        limit_spin = 25 \<rparr>) ''lengthmin'' = Some (PInt 30000) \<and>
   map_of (search_query
      \<lparr> name_input = ''ice'', author_input = '''', sort_combo = ''Awards (Most)'',
        env_combo = ''Snow'', difficulty_combo = ''All'', length_combo = ''30-60 sec'',
        limit_spin = 25 \<rparr>) ''lengthmax'' = Some (PInt 60000)"
  using length_bucket_table
    [of "\<lparr> name_input = ''ice'', author_input = '''', sort_combo = ''Awards (Most)'',
           env_combo = ''Snow'', difficulty_combo = ''All'', length_combo = ''30-60 sec'',
           limit_spin = 25 \<rparr>"]
  by simp

subsection \<open>The query without filters\<close>

lemma spin_value_range: "10 \<le> spin_value v \<and> spin_value v \<le> 100"
  by (simp add: spin_value_def)

text \<open>
  Claim C1, as amended. When the name and the author are empty after stripping and the
  environment, difficulty and length boxes are on \<^verbatim>\<open>All\<close>, the query holds no filter
  key: it is the sort ordinal \<^verbatim>\<open>order1\<close> of the selected sort entry, the count
  bounded to 10..100 and the projection \<^verbatim>\<open>fields\<close>, in this order. Every entry of the
  sort box is a key of \<^verbatim>\<open>sort_options\<close>, so \<^verbatim>\<open>order1\<close> is always among the keys.
\<close>

theorem unfiltered_query:
  assumes "strip (name_input f) = []" and "strip (author_input f) = []"
    and "env_combo f = ''All''" and "difficulty_combo f = ''All''"
    and "length_combo f = ''All''"
  shows "search_query f =
           (case map_of sort_options (sort_combo f) of
              None \<Rightarrow> []
            | Some n \<Rightarrow> [(''order1'', PInt n)])
           @ [(''count'', PInt (spin_value (limit_spin f))),
              (''fields'', PStr (join '','' COMMON_FIELDS))]
         \<and> 10 \<le> spin_value (limit_spin f) \<and> spin_value (limit_spin f) \<le> 100
         \<and> (sort_combo f \<in> set (map fst sort_options) \<longrightarrow>
              map fst (search_query f) = [''order1'', ''count'', ''fields''])"
proof -
  have steps: "search_browse f =
      AList.update ''count'' (PInt (spin_value (limit_spin f))) (sort_step f [])"
    using assms
    by (simp add: search_browse_steps name_step_def author_step_def env_step_def
        difficulty_step_def length_step_def)
  have q: "search_query f =
           (case map_of sort_options (sort_combo f) of
              None \<Rightarrow> []
            | Some n \<Rightarrow> [(''order1'', PInt n)])
           @ [(''count'', PInt (spin_value (limit_spin f))),
              (''fields'', PStr (join '','' COMMON_FIELDS))]"
    by (simp add: search_query_def SearchWorker_params_def steps sort_step_def
        split: option.split)
  have "map fst (search_query f) = [''order1'', ''count'', ''fields'']"
    if "sort_combo f \<in> set (map fst sort_options)"
  proof -
    from map_of_key [OF that] obtain n where "map_of sort_options (sort_combo f) = Some n"
      by (elim exE)
    with q show ?thesis by simp
  qed
  with q spin_value_range [of "limit_spin f"] show ?thesis by simp
qed

theorem unfiltered_query_witness:
  "search_query
     \<lparr> name_input = '' '', author_input = '''', sort_combo = ''Name (A-Z)'',
       env_combo = ''All'', difficulty_combo = ''All'', length_combo = ''All'',
       limit_spin = 250 \<rparr> =
   [(''order1'', PInt 1), (''count'', PInt 100),
    (''fields'', PStr (join '','' COMMON_FIELDS))]"
proof -
  have "strip '' '' = []" "strip '''' = []"
    by (simp_all add: strip_def py_isspace_def)
  from unfiltered_query
    [of "\<lparr> name_input = '' '', author_input = '''', sort_combo = ''Name (A-Z)'',
           env_combo = ''All'', difficulty_combo = ''All'', length_combo = ''All'',
           limit_spin = 250 \<rparr>"] this
  show ?thesis by (simp add: sort_options_def spin_value_def)
qed

text \<open>
  The claim as first stated (only the projection and the count, and no other key) fails
  for the window as it starts: the sort box is on its first entry and the query holds
  \<^verbatim>\<open>order1 = 6\<close>.
\<close>

theorem unfiltered_query_has_order1:
  "strip '''' = [] \<and>
   map_of (search_query
      \<lparr> name_input = '''', author_input = '''', sort_combo = ''Uploaded (Newest)'',
        env_combo = ''All'', difficulty_combo = ''All'', length_combo = ''All'',
        limit_spin = 25 \<rparr>) ''order1'' = Some (PInt 6) \<and>
   \<not> set (map fst (search_query
      \<lparr> name_input = '''', author_input = '''', sort_combo = ''Uploaded (Newest)'',
        env_combo = ''All'', difficulty_combo = ''All'', length_combo = ''All'',
        limit_spin = 25 \<rparr>)) \<subseteq> {''fields'', ''count''}"
  by (simp add: search_query_def SearchWorker_params_def search_browse_def strip_def
      sort_options_def)

section \<open>Properties of the result mapping\<close>

lemmas MapInfo_defs =
  author_login_def get_enum_name_def enum_map_def get_length_name_def dict_get_def
  get_if_dict_def

text \<open>
  Claim C6. The response with the single record
  \<^verbatim>\<open>{"MapId":42,"Name":"Test Track","Length":45000,"Environment":1}\<close> is mapped to one
  record, with id 42, length name \<^verbatim>\<open>30-60 sec\<close>, environment name \<^verbatim>\<open>Snow\<close> and the five
  counts zero.
\<close>

theorem test_track_record:
  "search_results
     (PDict [(''Results'',
        PList [PDict [(''MapId'', PInt 42), (''Name'', PStr ''Test Track''),
                      (''Length'', PInt 45000), (''Environment'', PInt 1)]])]) =
   Inr [\<lparr> TrackID = PInt 42, Name = PStr ''Test Track'', GbxMapName = PStr '''',
           Username = PStr '''', UserID = PNone, AuthorLogin = PStr '''',
           EnvironmentName = Lit ''Snow'', DifficultyName = Str PNone,
           VehicleName = PStr '''', MapType = PStr '''', TitlePack = PStr '''',
           Mood = PStr '''', Length = PInt 45000, LengthName = ''30-60 sec'',
           AwardCount = PInt 0, CommentCount = PInt 0, DownloadCount = PInt 0,
           ReplayCount = PInt 0, TrackValue = PInt 0, ReplayWRTime = PInt 0,
           ReplayWRUsername = PStr '''', UploadedAt = PStr '''', UpdatedAt = PStr '''',
           HasThumbnail = PBool False, HasImages = PBool False, Downloadable = True \<rparr>]"
  by (simp add: search_results_def MapInfo_defs)

text \<open>
  The lookups of the uploader and of the world record are guarded by
  \<^verbatim>\<open>isinstance(..., dict)\<close> and fall back to their defaults on every value.
\<close>

lemma guarded_lookups:
  assumes "MapInfo_init (PDict d) = Inr m"
  shows "(\<not> isinstance_dict (dict_get d ''Uploader'' (PDict [])) \<longrightarrow>
            Username m = PStr '''' \<and> UserID m = PNone) \<and>
         (\<not> isinstance_dict (dict_get d ''OnlineWR'' (PDict [])) \<longrightarrow>
            ReplayWRTime m = PInt 0 \<and> ReplayWRUsername m = PStr '''')"
  using assms
  by (auto simp: get_if_dict_def Let_def split: sum.splits pyval.splits)

lemma missing_nested:
  assumes "map_of d ''Uploader'' = None" and "map_of d ''Authors'' = None"
    and "map_of d ''OnlineWR'' = None" and "MapInfo_init (PDict d) = Inr m"
  shows "Username m = PStr '''' \<and> AuthorLogin m = PStr '''' \<and> ReplayWRTime m = PInt 0"
  using assms
  by (auto simp: get_if_dict_def dict_get_def author_login_def Let_def split: sum.splits)

text \<open>
  Claim C4 fails on the code for the author list. The first element of \<^verbatim>\<open>Authors\<close> is
  asked for its \<^verbatim>\<open>get\<close> method without the \<^verbatim>\<open>isinstance\<close> test that guards the
  uploader, the author's user and the world record; when that element is no object the
  constructor raises AttributeError.
\<close>

theorem authors_not_guarded:
  "MapInfo_init
     (PDict [(''MapId'', PInt 42), (''Name'', PStr ''Test Track''),
             (''Authors'', PList [PNone])]) = Inl AttributeError"
  by (simp add: author_login_def dict_get_def)

section \<open>Properties of the favorites file\<close>

lemmas file_defs =
  Config_load_favorites_def load_favorites_try_def Config_save_favorites_def open_w_def
  json_dump_def favorites_json_def dict_get_def

text \<open>
  Claim C7. \<^verbatim>\<open>Config.load_favorites\<close> returns a store for every state of the file: with
  no file the two empty lists and nothing printed; with a file that \<^verbatim>\<open>json.load\<close>
  rejects, or that holds a document that is no object, the two empty lists and the error
  line.
\<close>

theorem load_never_crashes:
  "Config_load_favorites None = (empty_favorites, []) \<and>
   Config_load_favorites (Some Malformed) =
     (empty_favorites, [''[ERROR] Favorites loading error'']) \<and>
   (\<not> isinstance_dict v \<longrightarrow>
      Config_load_favorites (Some (Document v)) =
        (empty_favorites, [''[ERROR] Favorites loading error'']))"
  by (cases v) (simp_all add: file_defs)

theorem load_never_crashes_witness:
  "Config_load_favorites (Some (Document (PList [PInt 1, PInt 2]))) =
     (\<lparr> maps = PList [], mappacks = PList [] \<rparr>, [''[ERROR] Favorites loading error''])"
  using load_never_crashes [of "PList [PInt 1, PInt 2]"]
  by (simp add: empty_favorites_def)

text \<open>
  Claim C9, as amended. \<^verbatim>\<open>Config.save_favorites\<close> opens the destination for writing,
  which empties it, before \<^verbatim>\<open>json.dump\<close> starts to encode. When the encoding raises, the
  exception is caught and the error line printed, and the file is left without a
  document: the next load yields the empty store. Only when \<^verbatim>\<open>open\<close> itself raises
  does the file stay as it was.
\<close>

theorem save_truncates_first:
  "Config_save_favorites DumpFails favs d =
     (Some Malformed, [''[ERROR] Favorites saving error'']) \<and>
   Config_load_favorites (fst (Config_save_favorites DumpFails favs d)) =
     (empty_favorites, [''[ERROR] Favorites loading error'']) \<and>
   Config_save_favorites OpenFails favs d = (d, [''[ERROR] Favorites saving error''])"
  by (simp add: file_defs)

text \<open>
  The claim as first stated fails: a file that held one favorite map holds no readable
  favorites after a save whose encoding raised.
\<close>

theorem failed_save_loses_file:
  "fst (Config_load_favorites
     (Some (Document (PDict
        [(''maps'', PList [PDict [(''id'', PInt 7), (''name'', PStr ''A01''),
                                  (''author'', PStr ''Nadeo'')]]),
         (''mappacks'', PList [])])))) =
     \<lparr> maps = PList [PDict [(''id'', PInt 7), (''name'', PStr ''A01''),
                              (''author'', PStr ''Nadeo'')]],
       mappacks = PList [] \<rparr> \<and>
   fst (Config_load_favorites (fst (Config_save_favorites DumpFails
     \<lparr> maps = PList [PDict [(''id'', PInt 7), (''name'', PStr ''A01''),
                              (''author'', PStr ''Nadeo'')],
                      PDict [(''id'', PInt 8), (''name'', PStr ''A02''),
                              (''author'', PStr ''Nadeo'')]],
       mappacks = PList [] \<rparr>
     (Some (Document (PDict
        [(''maps'', PList [PDict [(''id'', PInt 7), (''name'', PStr ''A01''),
                                  (''author'', PStr ''Nadeo'')]]),
         (''mappacks'', PList [])])))))) =
     \<lparr> maps = PList [], mappacks = PList [] \<rparr>"
  by (simp add: file_defs empty_favorites_def)

section \<open>Properties of the favorites lists\<close>

subsection \<open>Loops over the entries\<close>


lemma map_err_Inr_iff:
  "(\<exists>ys. map_err f xs = Inr ys) \<longleftrightarrow> (\<forall>x \<in> set xs. \<exists>y. f x = Inr y)"
  by (induction xs) (auto split: sum.splits)

lemma map_err_pointwise:
  "\<forall>x \<in> set xs. \<exists>y. f x = Inr y \<and> g y = h x \<Longrightarrow>
     \<exists>ys. map_err f xs = Inr ys \<and> map g ys = map h xs"
  by (induction xs) (auto split: sum.splits)

lemma subscript_id_has_id: "has_id fav \<Longrightarrow> subscript_id fav = Inr (fav_id fav)"
  by (cases fav) (auto simp: fav_id_def dict_get_def)

lemma subscript_id_Inr_iff: "(\<exists>v. subscript_id fav = Inr v) \<longleftrightarrow> has_id fav"
  by (cases fav) (auto split: option.splits)

lemma subscript_id_bare: "is_bare fav \<Longrightarrow> subscript_id fav = Inl TypeError"
  by (cases fav) (simp_all add: is_bare_def)


lemma id_list_Inr_iff: "(\<exists>ids. id_list (PList favs) = Inr ids) \<longleftrightarrow> (\<forall>fav \<in> set favs. has_id fav)"
  by (simp add: id_list_def map_err_Inr_iff subscript_id_Inr_iff)

lemma id_list_bare:
  "\<forall>fav \<in> set favs. has_id fav \<or> is_bare fav \<Longrightarrow> \<exists>fav \<in> set favs. is_bare fav \<Longrightarrow>
     id_list (PList favs) = Inl TypeError"
proof (induction favs)
  case Nil
  then show ?case by simp
next
  case (Cons fav favs)
  show ?case
  proof (cases "is_bare fav")
    case True
    then show ?thesis by (simp add: id_list_def subscript_id_bare)
  next
    case False
    with Cons.prems have h: "has_id fav" and rest: "\<exists>g \<in> set favs. is_bare g" by auto
    from Cons.IH rest Cons.prems(1) have "map_err subscript_id favs = Inl TypeError"
      by (simp add: id_list_def)
    with h show ?thesis by (simp add: id_list_def subscript_id_has_id)
  qed
qed

lemma without_id_filter:
  "\<forall>fav \<in> set favs. has_id fav \<Longrightarrow>
     without_id i favs = Inr (filter (\<lambda>fav. \<not> py_eq (fav_id fav) i) favs)"
  by (induction favs) (simp_all add: subscript_id_has_id)

lemma without_id_Inr_iff:
  "(\<exists>r. without_id i favs = Inr r) \<longleftrightarrow> (\<forall>fav \<in> set favs. has_id fav)"
proof (induction favs)
  case Nil
  show ?case by simp
next
  case (Cons fav favs)
  show ?case
  proof (cases "has_id fav")
    case True
    with Cons show ?thesis
      by (auto simp: subscript_id_has_id split: sum.splits)
  next
    case False
    then have "\<exists>e. subscript_id fav = Inl e"
      using subscript_id_Inr_iff [of fav] by (cases "subscript_id fav") auto
    with False show ?thesis by auto
  qed
qed

lemma filter_out_has_id:
  "\<forall>fav \<in> set favs. has_id fav \<Longrightarrow>
     filter_out i (PList favs) = Inr (PList (filter (\<lambda>fav. \<not> py_eq (fav_id fav) i) favs))"
  by (simp add: filter_out_def without_id_filter)

lemma filter_out_Inr_iff:
  "(\<exists>r. filter_out i (PList favs) = Inr r) \<longleftrightarrow> (\<forall>fav \<in> set favs. has_id fav)"
  using without_id_Inr_iff [of i favs]
  by (auto simp: filter_out_def split: sum.splits)

lemma without_id_bare:
  "\<forall>fav \<in> set favs. has_id fav \<or> is_bare fav \<Longrightarrow> \<exists>fav \<in> set favs. is_bare fav \<Longrightarrow>
     without_id i favs = Inl TypeError"
proof (induction favs)
  case Nil
  then show ?case by simp
next
  case (Cons fav favs)
  show ?case
  proof (cases "is_bare fav")
    case True
    then show ?thesis by (simp add: subscript_id_bare)
  next
    case False
    with Cons.prems have h: "has_id fav" and rest: "\<exists>g \<in> set favs. is_bare g" by auto
    from Cons.IH rest Cons.prems(1) have "without_id i favs = Inl TypeError" by simp
    with h show ?thesis by (simp add: subscript_id_has_id)
  qed
qed

lemma filter_out_bare:
  "\<forall>fav \<in> set favs. has_id fav \<or> is_bare fav \<Longrightarrow> \<exists>fav \<in> set favs. is_bare fav \<Longrightarrow>
     filter_out i (PList favs) = Inl TypeError"
  by (simp add: filter_out_def without_id_bare)

subsection \<open>Rendering\<close>

lemma is_entry_has_id: "is_entry fav \<Longrightarrow> has_id fav"
  by (cases fav) simp_all

lemma mappack_item_ok:
  assumes "is_bare fav \<or> is_entry fav"
  shows "\<exists>it. mappack_item fav = Inr it \<and> item_id it = fav_id fav"
proof (cases fav)
  case (PDict d)
  with assms have "is_entry (PDict d)" by (simp add: is_bare_def)
  then obtain n where "as_int (dict_get d ''map_count'' (PInt 0)) = Some n"
    by (auto simp: dict_get_def split: option.splits)
  with PDict show ?thesis
    by (simp add: mappack_item_def get_if_dict_def py_gt0_def)
qed (simp_all add: mappack_item_def get_if_dict_def py_gt0_def)

lemma load_favorites_ok:
  assumes "\<forall>fav \<in> set ps. is_bare fav \<or> is_entry fav"
  shows "\<exists>items. load_favorites \<lparr> maps = PList ms, mappacks = PList ps \<rparr> = Inr items \<and>
           map item_id items = map fav_id (ms @ ps)"
proof -
  from assms have "\<forall>fav \<in> set ps. \<exists>it. mappack_item fav = Inr it \<and> item_id it = fav_id fav"
    by (simp add: mappack_item_ok)
  from map_err_pointwise [OF this]
  obtain its where "map_err mappack_item ps = Inr its" "map item_id its = map fav_id ps"
    by (elim exE conjE)
  then show ?thesis
    by (simp add: load_favorites_def map_item_def)
qed

subsection \<open>Counting identities\<close>

lemma py_in_iff: "py_in x xs \<longleftrightarrow> (\<exists>e \<in> set xs. py_eq x e)"
  by (simp add: py_in_def list_ex_iff)



lemma count_id_filter:
  "count_id i (filter (\<lambda>fav. \<not> py_eq (fav_id fav) i) favs) = 0"
  by (simp add: count_id_def)

lemma filter_absent:
  "count_id i favs = 0 \<Longrightarrow> filter (\<lambda>fav. \<not> py_eq (fav_id fav) i) favs = favs"
  by (simp add: count_id_def filter_empty_conv filter_id_conv)



lemma no_duplicate_filter: "no_duplicate_ids favs \<Longrightarrow> no_duplicate_ids (filter P favs)"
  by (induction favs) (auto simp: py_in_iff)




subsection \<open>Saving and rendering after a change\<close>

lemma save_completes:
  "fst (Config_save_favorites Completes favs d) = Some (Document (favorites_json favs))"
  by (simp add: Config_save_favorites_def open_w_def json_dump_def)

lemma save_and_reload_ok:
  assumes "\<forall>fav \<in> set ps. is_bare fav \<or> is_entry fav"
  shows "\<exists>b'. save_and_reload io \<lparr> maps = PList ms, mappacks = PList ps \<rparr> status b = Inr b' \<and>
           favorites b' = \<lparr> maps = PList ms, mappacks = PList ps \<rparr> \<and>
           favorites_file b' =
             fst (Config_save_favorites io \<lparr> maps = PList ms, mappacks = PList ps \<rparr>
                    (favorites_file b)) \<and>
           status_label b' = (case status of None \<Rightarrow> status_label b | Some t \<Rightarrow> t) \<and>
           selected_map b' = selected_map b \<and>
           selected_mappack b' = selected_mappack b \<and>
           map item_id (favorites_list b') = map fav_id (ms @ ps)"
proof -
  from load_favorites_ok [OF assms, of ms]
  obtain items where "load_favorites \<lparr> maps = PList ms, mappacks = PList ps \<rparr> = Inr items"
    "map item_id items = map fav_id (ms @ ps)"
    by (elim exE conjE)
  then show ?thesis
    by (simp add: save_and_reload_def split: prod.split)
qed

subsection \<open>Adding a favorite\<close>





subsection \<open>Removing a favorite\<close>

text \<open>
  On lists of objects the operation removes by identity. Let the entries of the two lists
  be objects with an \<^verbatim>\<open>id\<close> (and a numeric
  \<^verbatim>\<open>map_count\<close>, if any, in the mappacks). For a selected item with identity \<open>i\<close>,
  \<^verbatim>\<open>remove_favorite\<close> returns without an exception; the list named by the type of the
  item keeps, in their order, exactly the entries whose id differs from \<open>i\<close>, so no entry
  with that identity is left; the other list is untouched; the whole store is written to
  the file (when the write goes through); and when no entry has the identity the store is
  unchanged.
\<close>

theorem remove_favorite_filters:
  assumes favs: "favorites b = \<lparr> maps = PList ms, mappacks = PList ps \<rparr>"
    and ms: "\<forall>fav \<in> set ms. has_id fav"
    and ps: "\<forall>fav \<in> set ps. is_entry fav"
  shows "\<exists>b'. remove_favorite io (Some item) b = Inr b' \<and>
           favorites b' =
             (if item_type item = ''map''
              then \<lparr> maps = PList (filter (\<lambda>fav. \<not> py_eq (fav_id fav) (item_id item)) ms),
                     mappacks = PList ps \<rparr>
              else \<lparr> maps = PList ms,
                     mappacks =
                       PList (filter (\<lambda>fav. \<not> py_eq (fav_id fav) (item_id item)) ps) \<rparr>) \<and>
           (io = Completes \<longrightarrow>
              favorites_file b' = Some (Document (favorites_json (favorites b')))) \<and>
           count_id (item_id item)
             (filter (\<lambda>fav. \<not> py_eq (fav_id fav) (item_id item))
                (if item_type item = ''map'' then ms else ps)) = 0 \<and>
           (count_id (item_id item) (if item_type item = ''map'' then ms else ps) = 0 \<longrightarrow>
              favorites b' = favorites b)"
proof (cases "item_type item = ''map''")
  case True
  let ?ms = "filter (\<lambda>fav. \<not> py_eq (fav_id fav) (item_id item)) ms"
  from ps have ps': "\<forall>fav \<in> set ps. is_bare fav \<or> is_entry fav" by simp
  from save_and_reload_ok [OF ps', where ms = ?ms and io = io and status = None and b = b]
  obtain b' where b': "save_and_reload io \<lparr> maps = PList ?ms, mappacks = PList ps \<rparr> None b = Inr b'"
    and f': "favorites b' = \<lparr> maps = PList ?ms, mappacks = PList ps \<rparr>"
    and d': "favorites_file b' =
      fst (Config_save_favorites io \<lparr> maps = PList ?ms, mappacks = PList ps \<rparr> (favorites_file b))"
    by (elim exE conjE)
  have "remove_favorite io (Some item) b = Inr b'"
    using True favs ms b' by (simp add: remove_favorite_def filter_out_has_id)
  moreover have "io = Completes \<longrightarrow>
      favorites_file b' = Some (Document (favorites_json (favorites b')))"
    using d' f' by (simp add: save_completes)
  moreover have "count_id (item_id item) ms = 0 \<longrightarrow> favorites b' = favorites b"
    using f' favs by (simp add: filter_absent)
  ultimately show ?thesis using True f' by (simp add: count_id_filter)
next
  case False
  let ?ps = "filter (\<lambda>fav. \<not> py_eq (fav_id fav) (item_id item)) ps"
  from ps have ps': "\<forall>fav \<in> set ?ps. is_bare fav \<or> is_entry fav" by simp
  from ps have ids: "\<forall>fav \<in> set ps. has_id fav" by (simp add: is_entry_has_id)
  from save_and_reload_ok [OF ps', where ms = ms and io = io and status = None and b = b]
  obtain b' where b': "save_and_reload io \<lparr> maps = PList ms, mappacks = PList ?ps \<rparr> None b = Inr b'"
    and f': "favorites b' = \<lparr> maps = PList ms, mappacks = PList ?ps \<rparr>"
    and d': "favorites_file b' =
      fst (Config_save_favorites io \<lparr> maps = PList ms, mappacks = PList ?ps \<rparr> (favorites_file b))"
    by (elim exE conjE)
  have "remove_favorite io (Some item) b = Inr b'"
    using False favs ids b' by (simp add: remove_favorite_def filter_out_has_id)
  moreover have "io = Completes \<longrightarrow>
      favorites_file b' = Some (Document (favorites_json (favorites b')))"
    using d' f' by (simp add: save_completes)
  moreover have "count_id (item_id item) ps = 0 \<longrightarrow> favorites b' = favorites b"
    using f' favs by (simp add: filter_absent)
  ultimately show ?thesis using False f' by (simp add: count_id_filter)
qed

theorem remove_favorite_filters_witness:
  "(\<exists>b'. remove_favorite Completes
            (Some \<lparr> item_text = [], item_id = PInt 7, item_type = ''map'' \<rparr>)
            (window_with_favorites \<lparr> favorites := \<lparr> maps = PList some_favorites,
                                                      mappacks = PList [] \<rparr> \<rparr>) = Inr b' \<and>
      favorites b' =
        \<lparr> maps = PList [PDict [(''id'', PInt 42), (''name'', PStr ''Test Track''),
                                 (''author'', PStr '''')]],
          mappacks = PList [] \<rparr>) \<and>
   (\<exists>b'. remove_favorite Completes
            (Some \<lparr> item_text = [], item_id = PInt 8, item_type = ''map'' \<rparr>)
            (window_with_favorites \<lparr> favorites := \<lparr> maps = PList some_favorites,
                                                      mappacks = PList [] \<rparr> \<rparr>) = Inr b' \<and>
      favorites b' = \<lparr> maps = PList some_favorites, mappacks = PList [] \<rparr>)"
proof -
  let ?b = "window_with_favorites \<lparr> favorites := \<lparr> maps = PList some_favorites,
                                                     mappacks = PList [] \<rparr> \<rparr>"
  have h: "favorites ?b = \<lparr> maps = PList some_favorites, mappacks = PList [] \<rparr>"
    "\<forall>fav \<in> set some_favorites. has_id fav"
    "\<forall>fav \<in> set []. is_entry fav"
    by (simp_all add: some_favorites_def)
  have f: "filter (\<lambda>fav. \<not> py_eq (fav_id fav) (PInt 7)) some_favorites =
      [PDict [(''id'', PInt 42), (''name'', PStr ''Test Track''), (''author'', PStr '''')]]"
    "filter (\<lambda>fav. \<not> py_eq (fav_id fav) (PInt 8)) some_favorites = some_favorites"
    by (simp_all add: some_favorites_def fav_id_def dict_get_def)
  from remove_favorite_filters
      [OF h, of Completes "\<lparr> item_text = [], item_id = PInt 7, item_type = ''map'' \<rparr>"]
    remove_favorite_filters
      [OF h, of Completes "\<lparr> item_text = [], item_id = PInt 8, item_type = ''map'' \<rparr>"]
    f
  show ?thesis by simp blast
qed

text \<open>
  Claim C8 fails on the code for a list that holds a bare identifier, the older format
  which \<^verbatim>\<open>load_favorites\<close> of the window reads with an \<^verbatim>\<open>isinstance\<close> test and shows as
  an item carrying that identifier. The filter of \<^verbatim>\<open>remove_favorite\<close> subscripts every
  entry without the test: with the maps list \<^verbatim>\<open>[5, A01, Test Track]\<close>, removing the item
  that the window shows for the entry 5 raises TypeError, and so does removing the
  identity 8, which no entry has.
\<close>

theorem remove_favorite_raises_on_legacy:
  "load_favorites \<lparr> maps = PList (PInt 5 # some_favorites), mappacks = PList [] \<rparr> =
     Inr [\<lparr> item_text = [Pict ''chequered flag'', Lit '' '', Lit ''Map '', Str (PInt 5)],
            item_id = PInt 5, item_type = ''map'' \<rparr>,
          \<lparr> item_text = [Pict ''chequered flag'', Lit '' '', Lit ''A01'',
                          Lit '' | '', Pict ''bust in silhouette'', Lit '' '', Lit ''Nadeo''],
            item_id = PInt 7, item_type = ''map'' \<rparr>,
          \<lparr> item_text = [Pict ''chequered flag'', Lit '' '', Lit ''Test Track'',
                          Lit '' | '', Pict ''bust in silhouette'', Lit '' '', Lit ''''],
            item_id = PInt 42, item_type = ''map'' \<rparr>] \<and>
   remove_favorite Completes
     (Some \<lparr> item_text = [Pict ''chequered flag'', Lit '' '', Lit ''Map '', Str (PInt 5)],
             item_id = PInt 5, item_type = ''map'' \<rparr>)
     (window_without_favorites
        \<lparr> favorites := \<lparr> maps = PList (PInt 5 # some_favorites), mappacks = PList [] \<rparr> \<rparr>) =
     Inl TypeError \<and>
   remove_favorite Completes
     (Some \<lparr> item_text = [], item_id = PInt 8, item_type = ''map'' \<rparr>)
     (window_without_favorites
        \<lparr> favorites := \<lparr> maps = PList (PInt 5 # some_favorites), mappacks = PList [] \<rparr> \<rparr>) =
     Inl TypeError"
  by (simp add: remove_favorite_def filter_out_def window_without_favorites_def
      load_favorites_def map_item_def fav_name_def fav_author_def author_text_def fav_id_def
      get_if_dict_def dict_get_def some_favorites_def)

subsection \<open>The precondition of the identity checks\<close>

text \<open>
  Claim C10. The list of identities that the add operations build and the filter of
  \<^verbatim>\<open>remove_favorite\<close> return without an exception exactly when every entry of the
  list is an object with the key \<^verbatim>\<open>id\<close>. When the entries of the target list are such
  objects or bare identifiers and at least one is a bare identifier, then
  \<^verbatim>\<open>add_to_favorites\<close> (with a selected map), \<^verbatim>\<open>add_mappack_to_favorites\<close> (with a
  selected mappack) and \<^verbatim>\<open>remove_favorite\<close> (with a selected item) raise TypeError.
\<close>

theorem identity_checks_need_objects:
  "((\<exists>ids. id_list (PList favs) = Inr ids) \<longleftrightarrow> (\<forall>fav \<in> set favs. has_id fav)) \<and>
   ((\<exists>kept. filter_out i (PList favs) = Inr kept) \<longleftrightarrow> (\<forall>fav \<in> set favs. has_id fav)) \<and>
   ((\<forall>fav \<in> set favs. has_id fav \<or> is_bare fav) \<and> (\<exists>fav \<in> set favs. is_bare fav) \<longrightarrow>
      (selected_map b = Some m \<and> maps (favorites b) = PList favs \<longrightarrow>
         add_to_favorites io b = Inl TypeError) \<and>
      (selected_mappack b = Some p \<and> mappacks (favorites b) = PList favs \<longrightarrow>
         add_mappack_to_favorites io b = Inl TypeError) \<and>
      (item_type item = ''map'' \<and> maps (favorites b) = PList favs \<longrightarrow>
         remove_favorite io (Some item) b = Inl TypeError) \<and>
      (item_type item \<noteq> ''map'' \<and> mappacks (favorites b) = PList favs \<longrightarrow>
         remove_favorite io (Some item) b = Inl TypeError))"
proof (intro conjI impI)
  show "(\<exists>ids. id_list (PList favs) = Inr ids) \<longleftrightarrow> (\<forall>fav \<in> set favs. has_id fav)"
    by (rule id_list_Inr_iff)
  show "(\<exists>kept. filter_out i (PList favs) = Inr kept) \<longleftrightarrow> (\<forall>fav \<in> set favs. has_id fav)"
    by (rule filter_out_Inr_iff)
next
  assume "(\<forall>fav \<in> set favs. has_id fav \<or> is_bare fav) \<and> (\<exists>fav \<in> set favs. is_bare fav)"
  then have ids: "id_list (PList favs) = Inl TypeError"
    and flt: "\<And>j. filter_out j (PList favs) = Inl TypeError"
    by (simp_all add: id_list_bare filter_out_bare)
  {
    assume "selected_map b = Some m \<and> maps (favorites b) = PList favs"
    with ids show "add_to_favorites io b = Inl TypeError"
      by (simp add: add_to_favorites_def)
  }
  {
    assume "selected_mappack b = Some p \<and> mappacks (favorites b) = PList favs"
    with ids show "add_mappack_to_favorites io b = Inl TypeError"
      by (simp add: add_mappack_to_favorites_def)
  }
  {
    assume "item_type item = ''map'' \<and> maps (favorites b) = PList favs"
    with flt show "remove_favorite io (Some item) b = Inl TypeError"
      by (simp add: remove_favorite_def)
  }
  {
    assume "item_type item \<noteq> ''map'' \<and> mappacks (favorites b) = PList favs"
    with flt show "remove_favorite io (Some item) b = Inl TypeError"
      by (simp add: remove_favorite_def)
  }
qed

text \<open>
  The window whose mappacks list is the bare identifier 7: adding the selected mappack
  and removing the item of that mappack raise TypeError, and so does adding the selected
  map once the bare identifier 7 is put among the maps.
\<close>

theorem identity_checks_need_objects_witness:
  "add_mappack_to_favorites Completes
     (window_with_favorites
        \<lparr> selected_mappack := Some \<lparr> pack_ID = PInt 9, pack_Name = PStr ''Pack'',
            pack_Username = PStr ''Nadeo'', pack_TrackCount = PInt 3,
            pack_Description = PStr '''', pack_DownloadCount = PInt 0 \<rparr> \<rparr>) = Inl TypeError \<and>
   remove_favorite Completes
     (Some \<lparr> item_text = [], item_id = PInt 7, item_type = ''mappack'' \<rparr>)
     (window_with_favorites
        \<lparr> selected_mappack := Some \<lparr> pack_ID = PInt 9, pack_Name = PStr ''Pack'',
            pack_Username = PStr ''Nadeo'', pack_TrackCount = PInt 3,
            pack_Description = PStr '''', pack_DownloadCount = PInt 0 \<rparr> \<rparr>) = Inl TypeError \<and>
   add_to_favorites Completes
     (window_without_favorites
        \<lparr> favorites := \<lparr> maps = PList [PInt 7], mappacks = PList [] \<rparr> \<rparr>) = Inl TypeError \<and>
   \<not> (\<exists>ids. id_list (PList [PInt 7]) = Inr ids)"
proof -
  let ?p = "\<lparr> pack_ID = PInt 9, pack_Name = PStr ''Pack'',
            pack_Username = PStr ''Nadeo'', pack_TrackCount = PInt 3,
            pack_Description = PStr '''', pack_DownloadCount = PInt 0 \<rparr>"
  let ?b = "window_with_favorites \<lparr> selected_mappack := Some ?p \<rparr>"
  let ?c = "window_without_favorites
        \<lparr> favorites := \<lparr> maps = PList [PInt 7], mappacks = PList [] \<rparr> \<rparr>"
  let ?item = "\<lparr> item_text = [], item_id = PInt 7, item_type = ''mappack'' \<rparr>"
  have h: "(\<forall>fav \<in> set [PInt 7]. has_id fav \<or> is_bare fav) \<and> (\<exists>fav \<in> set [PInt 7]. is_bare fav)"
    "selected_mappack ?b = Some ?p \<and> mappacks (favorites ?b) = PList [PInt 7]"
    "item_type ?item \<noteq> ''map''"
    "selected_map ?c = Some test_track \<and> maps (favorites ?c) = PList [PInt 7]"
    "\<not> (\<forall>fav \<in> set [PInt 7]. has_id fav)"
    by (simp_all add: is_bare_def window_with_favorites_def window_without_favorites_def)
  from identity_checks_need_objects [of "[PInt 7]" "PInt 7" ?b test_track Completes ?p ?item]
    identity_checks_need_objects [of "[PInt 7]" "PInt 7" ?c test_track Completes ?p ?item] h
  show ?thesis by simp
qed

subsection \<open>Saving and loading again\<close>

text \<open>
  Claim C3, as amended. For a store of two lists whose entries are objects
  \<^verbatim>\<open>{id, name, author, map_count?}\<close> or bare identifiers: saving it (the write going
  through) and loading the file gives back the same store and prints no error, so the
  identities are the same in each list and in the same order; the window renders the
  loaded store without an exception, and the items carry the identities of the entries,
  maps first, in the order of the lists; an entry that is a bare identifier has itself as
  identity and the placeholder \<^verbatim>\<open>Unknown\<close> as author, which the item text then omits,
  the text being the pictograph and \<^verbatim>\<open>Map\<close> or \<^verbatim>\<open>Mappack\<close> followed by the identifier.
\<close>

theorem favorites_round_trip:
  assumes "maps favs = PList ms" and "mappacks favs = PList ps"
    and "\<forall>fav \<in> set (ms @ ps). is_bare fav \<or> is_entry fav"
  shows "Config_load_favorites (fst (Config_save_favorites Completes favs d)) = (favs, []) \<and>
         (\<exists>items.
            load_favorites (fst (Config_load_favorites
              (fst (Config_save_favorites Completes favs d)))) = Inr items \<and>
            map item_id items = map fav_id ms @ map fav_id ps) \<and>
         (\<forall>fav \<in> set (ms @ ps). is_bare fav \<longrightarrow>
            fav_id fav = fav \<and>
            fav_author fav = PStr ''Unknown'' \<and>
            map_item fav =
              \<lparr> item_text = [Pict ''chequered flag'', Lit '' '', Lit ''Map '', py_str fav],
                item_id = fav, item_type = ''map'' \<rparr> \<and>
            mappack_item fav =
              Inr \<lparr> item_text = [Pict ''package'', Lit '' '', Lit ''Mappack '', py_str fav],
                    item_id = fav, item_type = ''mappack'' \<rparr>)"
proof (intro conjI ballI impI)
  show rt: "Config_load_favorites (fst (Config_save_favorites Completes favs d)) = (favs, [])"
    by (simp add: file_defs)
  have favs: "favs = \<lparr> maps = PList ms, mappacks = PList ps \<rparr>"
    using assms(1,2) by (cases favs) simp
  from assms(3) have "\<forall>fav \<in> set ps. is_bare fav \<or> is_entry fav" by simp
  from load_favorites_ok [OF this, of ms]
  show "\<exists>items.
          load_favorites (fst (Config_load_favorites
            (fst (Config_save_favorites Completes favs d)))) = Inr items \<and>
          map item_id items = map fav_id ms @ map fav_id ps"
    by (simp add: rt favs [symmetric])
next
  fix fav
  assume "is_bare fav"
  then show "fav_id fav = fav" "fav_author fav = PStr ''Unknown''"
    "map_item fav =
       \<lparr> item_text = [Pict ''chequered flag'', Lit '' '', Lit ''Map '', py_str fav],
         item_id = fav, item_type = ''map'' \<rparr>"
    "mappack_item fav =
       Inr \<lparr> item_text = [Pict ''package'', Lit '' '', Lit ''Mappack '', py_str fav],
             item_id = fav, item_type = ''mappack'' \<rparr>"
    by (cases fav;
        simp add: is_bare_def fav_id_def fav_author_def get_if_dict_def map_item_def
          mappack_item_def fav_name_def author_text_def py_gt0_def)+
qed

theorem favorites_round_trip_witness:
  "Config_load_favorites (fst (Config_save_favorites Completes
      \<lparr> maps = PList (PInt 5 # some_favorites), mappacks = PList [PInt 7] \<rparr> None)) =
     (\<lparr> maps = PList (PInt 5 # some_favorites), mappacks = PList [PInt 7] \<rparr>, []) \<and>
   (\<exists>items. load_favorites
       \<lparr> maps = PList (PInt 5 # some_favorites), mappacks = PList [PInt 7] \<rparr> = Inr items \<and>
      map item_id items = [PInt 5, PInt 7, PInt 42, PInt 7]) \<and>
   fav_author (PInt 5) = PStr ''Unknown'' \<and>
   map_item (PInt 5) =
     \<lparr> item_text = [Pict ''chequered flag'', Lit '' '', Lit ''Map '', Str (PInt 5)],
       item_id = PInt 5, item_type = ''map'' \<rparr>"
proof -
  let ?favs = "\<lparr> maps = PList (PInt 5 # some_favorites), mappacks = PList [PInt 7] \<rparr>"
  have h: "maps ?favs = PList (PInt 5 # some_favorites)" "mappacks ?favs = PList [PInt 7]"
    "\<forall>fav \<in> set ((PInt 5 # some_favorites) @ [PInt 7]). is_bare fav \<or> is_entry fav"
    by (simp_all add: some_favorites_def is_bare_def)
  have ids: "map fav_id (PInt 5 # some_favorites) @ map fav_id [PInt 7] =
      [PInt 5, PInt 7, PInt 42, PInt 7]"
    by (simp add: some_favorites_def fav_id_def dict_get_def)
  have bare: "is_bare (PInt 5)" "PInt 5 \<in> set ((PInt 5 # some_favorites) @ [PInt 7])"
    by (simp_all add: is_bare_def)
  note rt = favorites_round_trip [OF h, of None]
  from rt have 1: "Config_load_favorites (fst (Config_save_favorites Completes ?favs None)) =
      (?favs, [])"
    by (rule conjunct1)
  from rt obtain items where "load_favorites (fst (Config_load_favorites
      (fst (Config_save_favorites Completes ?favs None)))) = Inr items"
    "map item_id items = map fav_id (PInt 5 # some_favorites) @ map fav_id [PInt 7]"
    by blast
  then have 2: "\<exists>items. load_favorites ?favs = Inr items \<and>
      map item_id items = [PInt 5, PInt 7, PInt 42, PInt 7]"
    unfolding 1 ids by simp
  from rt bare have 3: "fav_author (PInt 5) = PStr ''Unknown'' \<and>
      map_item (PInt 5) =
        \<lparr> item_text = [Pict ''chequered flag'', Lit '' '', Lit ''Map '', py_str (PInt 5)],
          item_id = PInt 5, item_type = ''map'' \<rparr>"
    by blast
  from 1 2 3 show ?thesis by simp
qed

text \<open>
  The claim as first stated has the bare identifiers rendered with the author
  \<^verbatim>\<open>Unknown\<close>. The placeholder is only the value of the local \<^verbatim>\<open>map_author\<close>; the
  guard \<^verbatim>\<open>if map_author != "Unknown"\<close> keeps it out of the text, and the items of the
  store \<^verbatim>\<open>{"maps": [5], "mappacks": [7]}\<close> show no author at all.
\<close>

theorem legacy_item_shows_no_author:
  "load_favorites \<lparr> maps = PList [PInt 5], mappacks = PList [PInt 7] \<rparr> =
     Inr [\<lparr> item_text = [Pict ''chequered flag'', Lit '' '', Lit ''Map '', Str (PInt 5)],
            item_id = PInt 5, item_type = ''map'' \<rparr>,
          \<lparr> item_text = [Pict ''package'', Lit '' '', Lit ''Mappack '', Str (PInt 7)],
            item_id = PInt 7, item_type = ''mappack'' \<rparr>] \<and>
   fav_author (PInt 5) = PStr ''Unknown'' \<and>
   author_text (fav_author (PInt 5)) = [] \<and>
   Lit ''Unknown'' \<notin> set (item_text (map_item (PInt 5))) \<and>
   Str (PStr ''Unknown'') \<notin> set (item_text (map_item (PInt 5)))"
  by (simp add: load_favorites_def map_item_def mappack_item_def fav_name_def fav_author_def
      author_text_def fav_id_def get_if_dict_def py_gt0_def)

end
